theory Spec2Isabelle
  imports Complex_Main "HOL-Library.AList"
begin

section \<open>Python values used by clientes.py\<close>

text \<open>
  A Python \<open>str\<close> is a sequence of code points. It is modelled by \<open>string\<close>, one
  \<open>char\<close> per code point, which covers the code points below 256 (ASCII and Latin-1,
  enough for the Spanish names and materials of the program; \<open>CHR 0xE1\<close> is a-acute).
  A Python \<open>float\<close> is a binary64 number, modelled by \<open>pyfloat\<close> below with its
  rounding, infinities and NaN. A Python \<open>int\<close> is an \<open>int\<close>. A \<open>dict\<close> keeps its keys in
  insertion order, so it is an association list: \<open>map_of\<close> reads a key,
  \<open>AList.update\<close> overwrites a key in place or appends a new one at the end.
\<close>

definition codigo :: "char \<Rightarrow> nat" where
  "codigo c = of_char c"

text \<open>\<open>str.isspace\<close> on one code point below 256.\<close>

definition py_isspace :: "char \<Rightarrow> bool" where
  "py_isspace c =
     (let n = codigo c
      in (9 \<le> n \<and> n \<le> 13) \<or> (28 \<le> n \<and> n \<le> 32) \<or> n = 133 \<or> n = 160)"

text \<open>\<open>s.strip()\<close>: whitespace removed at both ends.\<close>

definition py_strip :: "string \<Rightarrow> string" where
  "py_strip s = rev (dropWhile py_isspace (rev (dropWhile py_isspace s)))"

text \<open>
  \<open>s.lower()\<close>. Below 256 the letters with a lower-case form are A to Z and
  0xC0 to 0xDE without the multiplication sign 0xD7; the lower-case form is 32 higher.
\<close>

definition es_mayuscula :: "char \<Rightarrow> bool" where
  "es_mayuscula c =
     (let n = codigo c
      in (65 \<le> n \<and> n \<le> 90) \<or> (192 \<le> n \<and> n \<le> 222 \<and> n \<noteq> 215))"

definition lower_char :: "char \<Rightarrow> char" where
  "lower_char c = (if es_mayuscula c then char_of (codigo c + 32) else c)"

definition py_lower :: "string \<Rightarrow> string" where
  "py_lower s = map lower_char s"

text \<open>
  \<open>s.title()\<close>: a character that follows a cased character is lower-cased, any other
  character is title-cased. Below 256 the title-case form of a lower-case letter is 32
  lower. Three characters have a title-case form outside this range (0xB5, 0xDF and
  0xFF); the model leaves them as they are, which is its one difference from Python on
  code points below 256.
\<close>

definition es_minuscula :: "char \<Rightarrow> bool" where
  "es_minuscula c =
     (let n = codigo c
      in (97 \<le> n \<and> n \<le> 122) \<or> (224 \<le> n \<and> n \<le> 254 \<and> n \<noteq> 247))"

definition title_char :: "char \<Rightarrow> char" where
  "title_char c = (if es_minuscula c then char_of (codigo c - 32) else c)"

definition py_iscased :: "char \<Rightarrow> bool" where
  "py_iscased c =
     (let n = codigo c
      in (65 \<le> n \<and> n \<le> 90) \<or> (97 \<le> n \<and> n \<le> 122) \<or> n = 170 \<or> n = 181 \<or> n = 186
         \<or> (192 \<le> n \<and> n \<le> 255 \<and> n \<noteq> 215 \<and> n \<noteq> 247))"

fun title_desde :: "bool \<Rightarrow> string \<Rightarrow> string" where
  "title_desde previous_is_cased [] = []"
| "title_desde previous_is_cased (c # cs) =
     (if previous_is_cased then lower_char c else title_char c) # title_desde (py_iscased c) cs"

definition py_title :: "string \<Rightarrow> string" where
  "py_title s = title_desde False s"

text \<open>\<open>str(k)\<close> for an integer: decimal digits, with a minus sign when negative.\<close>

definition digito :: "nat \<Rightarrow> char" where
  "digito d = char_of (48 + d)"

fun digitos :: "nat \<Rightarrow> string" where
  "digitos n = (if n < 10 then [digito n] else digitos (n div 10) @ [digito (n mod 10)])"

declare digitos.simps [simp del]

definition py_str :: "int \<Rightarrow> string" where
  "py_str k = (if k < 0 then CHR ''-'' # digitos (nat (- k)) else digitos (nat k))"

text \<open>
  \<open>int(s)\<close> for a string: whitespace is stripped, one sign is allowed, then decimal
  digits, where a single underscore may stand between two digits. Anything else raises
  \<open>ValueError\<close>, which is \<open>None\<close> here. The whitespace \<open>int\<close> strips is
  narrower than that of \<open>str.strip\<close>: the separators 0x1C to 0x1F are not part of it.
  The limit on the number of digits that recent interpreters put on \<open>int\<close> and
  \<open>str\<close> (4300 by default) is not modelled.
\<close>

definition int_isspace :: "char \<Rightarrow> bool" where
  "int_isspace c =
     (let n = codigo c in (9 \<le> n \<and> n \<le> 13) \<or> n = 32 \<or> n = 133 \<or> n = 160)"

definition int_strip :: "string \<Rightarrow> string" where
  "int_strip s = rev (dropWhile int_isspace (rev (dropWhile int_isspace s)))"

definition es_digito :: "char \<Rightarrow> bool" where
  "es_digito c = (48 \<le> codigo c \<and> codigo c \<le> 57)"

definition valor_digito :: "char \<Rightarrow> nat" where
  "valor_digito c = codigo c - 48"

fun leer_digitos :: "nat \<Rightarrow> string \<Rightarrow> nat option" where
  "leer_digitos acc [] = Some acc"
| "leer_digitos acc (c # cs) =
     (if es_digito c then leer_digitos (10 * acc + valor_digito c) cs
      else if c = CHR ''_'' then
        (case cs of
           [] \<Rightarrow> None
         | d # ds \<Rightarrow> if es_digito d then leer_digitos (10 * acc + valor_digito d) ds else None)
      else None)"

definition leer_natural :: "string \<Rightarrow> nat option" where
  "leer_natural s =
     (case s of
        [] \<Rightarrow> None
      | c # cs \<Rightarrow> if es_digito c then leer_digitos (valor_digito c) cs else None)"

definition py_int :: "string \<Rightarrow> int option" where
  "py_int s =
     (case int_strip s of
        [] \<Rightarrow> None
      | c # cs \<Rightarrow>
          if c = CHR ''-'' then map_option (\<lambda>n. - int n) (leer_natural cs)
          else if c = CHR ''+'' then map_option int (leer_natural cs)
          else map_option int (leer_natural (c # cs)))"

text \<open>\<open>max(xs, default=d)\<close>.\<close>

definition py_max :: "int list \<Rightarrow> int \<Rightarrow> int" where
  "py_max xs d = (case xs of [] \<Rightarrow> d | x # ys \<Rightarrow> foldl max x ys)"

section \<open>Python floats\<close>

text \<open>
  A \<open>float\<close> is a finite binary64 number, given by its sign (\<open>True\<close> for minus)
  and its magnitude, or an infinity with its sign, or NaN. Zero has a sign too. Every
  operation computes the exact result and rounds it to the nearest binary64 number, ties
  to the even significand; a result of magnitude \<open>2 ^ 1024\<close> or more becomes an
  infinity. The operations return binary64 numbers only; the type has room for other
  magnitudes, and what is proved below for every value of the type holds for the floats
  among them.
\<close>

datatype pyfloat = Finito bool rat | Infinito bool | NaN

text \<open>A non-negative rational rounded to the nearest integer, ties to even.\<close>

definition redondeo_par :: "rat \<Rightarrow> int" where
  "redondeo_par y =
     (let f = \<lfloor>y\<rfloor>; d = y - of_int f
      in if d < 1 / 2 then f else if 1 / 2 < d then f + 1 else if even f then f else f + 1)"

text \<open>The number of binary digits of a natural number.\<close>

fun num_bits :: "nat \<Rightarrow> nat" where
  "num_bits n = (if n = 0 then 0 else Suc (num_bits (n div 2)))"

declare num_bits.simps [simp del]

text \<open>
  The integer part of the binary logarithm of a positive rational: one less than the
  number of binary digits of its integer part when it is at least 1, and otherwise the
  least \<open>k\<close> with \<open>1 / q \<le> 2 ^ k\<close>, negated.
\<close>

definition piso_log2 :: "rat \<Rightarrow> int" where
  "piso_log2 q =
     (if 1 \<le> q then int (num_bits (nat \<lfloor>q\<rfloor>)) - 1
      else - int (num_bits (nat \<lceil>1 / q\<rceil> - 1)))"

definition dos_a :: "int \<Rightarrow> rat" where
  "dos_a e = (if 0 \<le> e then 2 ^ nat e else 1 / 2 ^ nat (- e))"

text \<open>
  Rounding a magnitude \<open>q\<close> with sign \<open>s\<close>. The significand has 53 bits, so the
  spacing of the floats around \<open>q\<close> is \<open>2 ^ e\<close> with \<open>e\<close> 52 below the binary
  logarithm of \<open>q\<close>, and never below -1074, the spacing of the subnormal numbers.
\<close>

definition redondear :: "bool \<Rightarrow> rat \<Rightarrow> pyfloat" where
  "redondear s q =
     (if q = 0 then Finito s 0
      else
        (let e = max (piso_log2 q - 52) (- 1074);
             r = of_int (redondeo_par (q / dos_a e)) * dos_a e
         in if 2 ^ 1024 \<le> r then Infinito s else Finito s r))"

text \<open>
  The float that a decimal literal of the source denotes (\<open>5.0\<close>, \<open>2.5\<close>), and the
  float an integer argument converts to.
\<close>

definition py_float :: "rat \<Rightarrow> pyfloat" where
  "py_float q = redondear (q < 0) \<bar>q\<bar>"

definition con_signo :: "bool \<Rightarrow> rat \<Rightarrow> rat" where
  "con_signo s q = (if s then - q else q)"

text \<open>\<open>x * y\<close>\<close>

fun float_mul :: "pyfloat \<Rightarrow> pyfloat \<Rightarrow> pyfloat" where
  "float_mul NaN y = NaN"
| "float_mul x NaN = NaN"
| "float_mul (Infinito s) (Infinito t) = Infinito (s \<noteq> t)"
| "float_mul (Infinito s) (Finito t b) = (if b = 0 then NaN else Infinito (s \<noteq> t))"
| "float_mul (Finito s a) (Infinito t) = (if a = 0 then NaN else Infinito (s \<noteq> t))"
| "float_mul (Finito s a) (Finito t b) = redondear (s \<noteq> t) (a * b)"

text \<open>\<open>x + y\<close>. An exact sum of zero is +0.0 unless both operands are -0.0.\<close>

fun float_add :: "pyfloat \<Rightarrow> pyfloat \<Rightarrow> pyfloat" where
  "float_add NaN y = NaN"
| "float_add x NaN = NaN"
| "float_add (Infinito s) (Infinito t) = (if s = t then Infinito s else NaN)"
| "float_add (Infinito s) (Finito t b) = Infinito s"
| "float_add (Finito s a) (Infinito t) = Infinito t"
| "float_add (Finito s a) (Finito t b) =
     (let v = con_signo s a + con_signo t b
      in if v = 0 then Finito (s \<and> t) 0 else redondear (v < 0) \<bar>v\<bar>)"

text \<open>\<open>x <= y\<close> and \<open>x < y\<close>: false as soon as one side is NaN.\<close>

fun float_le :: "pyfloat \<Rightarrow> pyfloat \<Rightarrow> bool" where
  "float_le NaN y = False"
| "float_le x NaN = False"
| "float_le (Infinito s) (Infinito t) = (s \<or> \<not> t)"
| "float_le (Infinito s) (Finito t b) = s"
| "float_le (Finito s a) (Infinito t) = (\<not> t)"
| "float_le (Finito s a) (Finito t b) = (con_signo s a \<le> con_signo t b)"

fun float_lt :: "pyfloat \<Rightarrow> pyfloat \<Rightarrow> bool" where
  "float_lt NaN y = False"
| "float_lt x NaN = False"
| "float_lt (Infinito s) (Infinito t) = (s \<and> \<not> t)"
| "float_lt (Infinito s) (Finito t b) = s"
| "float_lt (Finito s a) (Infinito t) = (\<not> t)"
| "float_lt (Finito s a) (Finito t b) = (con_signo s a < con_signo t b)"

text \<open>
  The exact value of a finite float, and the exact sum of a list of floats; neither
  exists when an infinity or NaN is involved.
\<close>

fun valor :: "pyfloat \<Rightarrow> rat option" where
  "valor (Finito s q) = Some (con_signo s q)"
| "valor (Infinito s) = None"
| "valor NaN = None"

fun suma_exacta :: "pyfloat list \<Rightarrow> rat option" where
  "suma_exacta [] = Some 0"
| "suma_exacta (x # xs) =
     (case valor x of
        None \<Rightarrow> None
      | Some v \<Rightarrow> (case suma_exacta xs of None \<Rightarrow> None | Some w \<Rightarrow> Some (v + w)))"

section \<open>The clock\<close>

text \<open>
  \<open>datetime.now()\<close> is an input of every operation that reads the clock. The four
  \<open>strftime\<close> formats of the program print the fields in decimal, padded with zeros
  (the year to four digits, as for every year the clock can give).
\<close>

record datetime =
  year :: nat
  month :: nat
  day :: nat
  hour :: nat
  minute :: nat
  second :: nat

definition relleno :: "nat \<Rightarrow> nat \<Rightarrow> string" where
  "relleno w n = replicate (w - length (digitos n)) (CHR ''0'') @ digitos n"

text \<open>\<open>"%Y-%m-%d"\<close>\<close>

definition strftime_dia :: "datetime \<Rightarrow> string" where
  "strftime_dia t = relleno 4 (year t) @ ''-'' @ relleno 2 (month t) @ ''-'' @ relleno 2 (day t)"

text \<open>\<open>"%Y-%m-%d %H:%M"\<close>\<close>

definition strftime_minuto :: "datetime \<Rightarrow> string" where
  "strftime_minuto t =
     strftime_dia t @ '' '' @ relleno 2 (hour t) @ '':'' @ relleno 2 (minute t)"

text \<open>\<open>"%Y-%m"\<close>\<close>

definition strftime_mes :: "datetime \<Rightarrow> string" where
  "strftime_mes t = relleno 4 (year t) @ ''-'' @ relleno 2 (month t)"

text \<open>\<open>"%Y%m%d_%H%M%S"\<close>\<close>

definition strftime_timestamp :: "datetime \<Rightarrow> string" where
  "strftime_timestamp t =
     relleno 4 (year t) @ relleno 2 (month t) @ relleno 2 (day t) @ ''_''
     @ relleno 2 (hour t) @ relleno 2 (minute t) @ relleno 2 (second t)"

section \<open>Data model\<close>

text \<open>One entry of \<open>historial\<close>: the dictionary \<open>compra\<close> of \<open>registrar_compra\<close>.\<close>

record compra =
  fecha :: string
  material :: string
  peso :: pyfloat
  precio_kg :: pyfloat
  total :: pyfloat
  mes :: string

text \<open>One value of \<open>self.clientes\<close>: the dictionary built by \<open>agregar_cliente\<close>.\<close>

record cliente =
  nombre :: string
  telefono :: string
  direccion :: string
  fecha_registro :: string
  compras_totales :: pyfloat
  peso_total :: pyfloat
  num_transacciones :: int
  historial :: "compra list"
  activo :: bool

text \<open>
  Every \<open>raise\<close> of the two operations is a \<open>ValueError\<close>; the three sites differ by
  their message. \<open>UnboundLocalError\<close> is what reading the unassigned local \<open>archivo\<close>
  raises, \<open>OSError\<close> what a failed \<open>open\<close> or \<open>write\<close> raises.
\<close>

datatype mensaje = NombreVacio | ClienteNoEncontrado int | PesoNoPositivo

datatype error = ValueError mensaje | UnboundLocalError | OSError

text \<open>
  A file on disk holds a JSON object whose members are customer records (what
  \<open>json.dump(self.clientes, ...)\<close> writes, keys as strings), the rows of a CSV report,
  or anything else, on which \<open>json.load\<close> or \<open>data.items()\<close> raises. The text
  layout of a file (indentation, two-decimal rendering of the CSV numbers) belongs to the
  libraries and is not modelled.
\<close>

type_synonym fila = "int \<times> string \<times> string \<times> string \<times> string \<times> pyfloat \<times> pyfloat \<times> int"

datatype contenido =
  Json "(string \<times> cliente) list"
| Csv "fila list"
| Ilegible

text \<open>
  What the environment does with \<open>open(..., "w")\<close> followed by a write: it succeeds,
  \<open>open\<close> fails and the file is untouched, or the write fails after \<open>open\<close> has
  truncated the file.
\<close>

datatype escritura = Exito | FalloAbrir | FalloEscribir

record entorno =
  ahora :: datetime
  resultado_escritura :: escritura

record sistema =
  archivo_datos :: string
  clientes :: "(int \<times> cliente) list"
  precios_materiales :: "(string \<times> pyfloat) list"
  disco :: "string \<rightharpoonup> contenido"

definition escribir :: "escritura \<Rightarrow> string \<Rightarrow> contenido \<Rightarrow> (string \<rightharpoonup> contenido) \<Rightarrow> (string \<rightharpoonup> contenido)" where
  "escribir w f c d =
     (case w of
        Exito \<Rightarrow> d(f \<mapsto> c)
      | FalloAbrir \<Rightarrow> d
      | FalloEscribir \<Rightarrow> d(f \<mapsto> Ilegible))"

section \<open>Persistence: \<open>guardar_datos\<close> and \<open>cargar_datos\<close>\<close>

text \<open>\<open>json.dump\<close> of a dictionary with integer keys writes each key as \<open>str(key)\<close>.\<close>

definition json_dump :: "(int \<times> cliente) list \<Rightarrow> (string \<times> cliente) list" where
  "json_dump cs = map (\<lambda>(k, v). (py_str k, v)) cs"

text \<open>The \<open>except\<close> clause swallows a failed write; only the disk shows it.\<close>

definition guardar_datos :: "entorno \<Rightarrow> sistema \<Rightarrow> sistema" where
  "guardar_datos e s =
     s\<lparr>disco := escribir (resultado_escritura e) (archivo_datos s)
                   (Json (json_dump (clientes s))) (disco s)\<rparr>"

text \<open>
  The comprehension \<open>{int(k): v for k, v in data.items()}\<close>: \<open>None\<close> when some
  \<open>int(k)\<close> raises; a key met twice keeps its first place and takes the later value.
\<close>

fun claves_enteras :: "(string \<times> cliente) list \<Rightarrow> (int \<times> cliente) list \<Rightarrow> (int \<times> cliente) list option" where
  "claves_enteras [] acc = Some acc"
| "claves_enteras ((k, v) # kvs) acc =
     (case py_int k of
        None \<Rightarrow> None
      | Some i \<Rightarrow> claves_enteras kvs (AList.update i v acc))"

definition cargar_datos :: "sistema \<Rightarrow> sistema" where
  "cargar_datos s =
     (case disco s (archivo_datos s) of
        None \<Rightarrow> s
      | Some (Json data) \<Rightarrow>
          (case claves_enteras data [] of
             Some cs \<Rightarrow> s\<lparr>clientes := cs\<rparr>
           | None \<Rightarrow> s\<lparr>clientes := []\<rparr>)
      | Some _ \<Rightarrow> s\<lparr>clientes := []\<rparr>)"

text \<open>\<open>SistemaClientes.__init__\<close>: the price table of the source, then \<open>cargar_datos\<close>.\<close>

definition precios_iniciales :: "(string \<times> pyfloat) list" where
  "precios_iniciales =
     [(''aluminio'', py_float 25), (''papel'', py_float 3), (''plastico'', py_float 8),
      (''pl'' @ [CHR 0xE1] @ ''stico'', py_float 8), (''vidrio'', py_float 5),
      (''carton'', py_float 2.5), (''cart'' @ [CHR 0xF3] @ ''n'', py_float 2.5),
      (''metal'', py_float 15), (''cobre'', py_float 80)]"

definition sistema_init :: "string \<Rightarrow> (string \<rightharpoonup> contenido) \<Rightarrow> sistema" where
  "sistema_init f d =
     cargar_datos \<lparr>archivo_datos = f, clientes = [], precios_materiales = precios_iniciales,
                   disco = d\<rparr>"

section \<open>Customer operations\<close>

text \<open>
  Each operation returns what the call returns or raises, and the state after it.
  Console output is not modelled.
\<close>

definition cliente_nuevo :: "datetime \<Rightarrow> string \<Rightarrow> string \<Rightarrow> string \<Rightarrow> cliente" where
  "cliente_nuevo t nom tel dir =
     \<lparr>nombre = py_title (py_strip nom), telefono = py_strip tel, direccion = py_strip dir,
      fecha_registro = strftime_dia t, compras_totales = py_float 0, peso_total = py_float 0,
      num_transacciones = 0, historial = [], activo = True\<rparr>"

definition agregar_cliente :: "entorno \<Rightarrow> string \<Rightarrow> string \<Rightarrow> string \<Rightarrow> sistema \<Rightarrow> (error + int) \<times> sistema" where
  "agregar_cliente e nom tel dir s =
     (if py_strip nom = [] then (Inl (ValueError NombreVacio), s)
      else
        (case find (\<lambda>(cliente_id, datos). telefono datos = tel) (clientes s) of
           Some (cliente_id, datos) \<Rightarrow> (Inr cliente_id, s)
         | None \<Rightarrow>
             (let cliente_id = py_max (map fst (clientes s)) 0 + 1
              in (Inr cliente_id,
                  guardar_datos e
                    (s\<lparr>clientes := AList.update cliente_id (cliente_nuevo (ahora e) nom tel dir)
                                     (clientes s)\<rparr>)))))"

definition compra_nueva :: "datetime \<Rightarrow> string \<Rightarrow> pyfloat \<Rightarrow> pyfloat \<Rightarrow> compra" where
  "compra_nueva t mat p pk =
     \<lparr>fecha = strftime_minuto t, material = py_title mat, peso = p, precio_kg = pk,
      total = float_mul p pk, mes = strftime_mes t\<rparr>"

definition anotar_compra :: "compra \<Rightarrow> cliente \<Rightarrow> cliente" where
  "anotar_compra c cl =
     cl\<lparr>historial := historial cl @ [c],
        compras_totales := float_add (compras_totales cl) (total c),
        peso_total := float_add (peso_total cl) (peso c),
        num_transacciones := num_transacciones cl + 1\<rparr>"

definition registrar_compra :: "entorno \<Rightarrow> int \<Rightarrow> string \<Rightarrow> pyfloat \<Rightarrow> pyfloat option \<Rightarrow> sistema \<Rightarrow> (error + pyfloat) \<times> sistema" where
  "registrar_compra e cliente_id mat p precio s =
     (case map_of (clientes s) cliente_id of
        None \<Rightarrow> (Inl (ValueError (ClienteNoEncontrado cliente_id)), s)
      | Some cl \<Rightarrow>
          if float_le p (py_float 0) then (Inl (ValueError PesoNoPositivo), s)
          else
            (let material_lower = py_lower mat;
                 pk = (case precio of
                         None \<Rightarrow> (case map_of (precios_materiales s) material_lower of
                                    None \<Rightarrow> py_float 5
                                  | Some x \<Rightarrow> x)
                       | Some x \<Rightarrow> x);
                 c = compra_nueva (ahora e) mat p pk
              in (Inr (total c),
                  guardar_datos e
                    (s\<lparr>clientes := AList.update cliente_id (anotar_compra c cl) (clientes s)\<rparr>))))"

section \<open>Export\<close>

text \<open>One line of the CSV report.\<close>

definition fila_csv :: "int \<times> cliente \<Rightarrow> fila" where
  "fila_csv p =
     (case p of (id_cliente, datos) \<Rightarrow>
        (id_cliente, nombre datos, telefono datos, direccion datos, fecha_registro datos,
         compras_totales datos, peso_total datos, num_transacciones datos))"

text \<open>
  \<open>with open(archivo, "w") as f: ...\<close> outside any \<open>try\<close>: a failure is raised to
  the caller.
\<close>

definition escribir_o_fallar :: "entorno \<Rightarrow> string \<Rightarrow> contenido \<Rightarrow> sistema \<Rightarrow> (error + string) \<times> sistema" where
  "escribir_o_fallar e archivo c s =
     (let s' = s\<lparr>disco := escribir (resultado_escritura e) archivo c (disco s)\<rparr>
      in case resultado_escritura e of
           Exito \<Rightarrow> (Inr archivo, s')
         | FalloAbrir \<Rightarrow> (Inl OSError, s')
         | FalloEscribir \<Rightarrow> (Inl OSError, s'))"

text \<open>
  \<open>exportar_datos\<close>. When neither branch runs, the local \<open>archivo\<close> was never
  assigned and the \<open>print\<close> that reads it raises.
\<close>

definition exportar_datos :: "entorno \<Rightarrow> string \<Rightarrow> sistema \<Rightarrow> (error + string) \<times> sistema" where
  "exportar_datos e formato s =
     (let timestamp = strftime_timestamp (ahora e)
      in if py_lower formato = ''json'' then
           escribir_o_fallar e (''backup_clientes_'' @ timestamp @ ''.json'')
             (Json (json_dump (clientes s))) s
         else if py_lower formato = ''csv'' then
           escribir_o_fallar e (''reporte_clientes_'' @ timestamp @ ''.csv'')
             (Csv (map fila_csv (clientes s))) s
         else (Inl UnboundLocalError, s))"

section \<open>Price table\<close>

text \<open>
  \<open>configurar_precios\<close> reads two lines: the material, and (only when the material is
  a key of the table) the new price. The second input is what \<open>float(...)\<close> makes of
  the line, \<open>None\<close> when it raises \<open>ValueError\<close>. The function returns nothing;
  the message it prints tells which branch ran.
\<close>

datatype aviso = PrecioActualizado | PrecioNoPositivo | PrecioInvalido | MaterialNoEncontrado

definition configurar_precios :: "string \<Rightarrow> pyfloat option \<Rightarrow> sistema \<Rightarrow> aviso \<times> sistema" where
  "configurar_precios entrada_material entrada_precio s =
     (let mat = py_strip (py_lower entrada_material)
      in if mat \<in> set (map fst (precios_materiales s)) then
           (case entrada_precio of
              None \<Rightarrow> (PrecioInvalido, s)
            | Some nuevo_precio \<Rightarrow>
                if float_lt (py_float 0) nuevo_precio then
                  (PrecioActualizado,
                   s\<lparr>precios_materiales := AList.update mat nuevo_precio (precios_materiales s)\<rparr>)
                else (PrecioNoPositivo, s))
         else (MaterialNoEncontrado, s))"

text \<open>
  The price \<open>registrar_compra\<close> takes for a material when the caller gives none:
  \<open>self.precios_materiales.get(material.lower(), 5.0)\<close>.
\<close>

definition precio_de :: "sistema \<Rightarrow> string \<Rightarrow> pyfloat" where
  "precio_de s mat =
     (case map_of (precios_materiales s) (py_lower mat) of
        None \<Rightarrow> py_float 5
      | Some x \<Rightarrow> x)"

section \<open>Sequences of calls\<close>

text \<open>
  A caller that makes one call after another and goes on after a \<open>ValueError\<close>, as
  the menu loop does.
\<close>

datatype llamada =
  Agregar entorno string string string
| Registrar entorno int string pyfloat "pyfloat option"

fun ejecutar :: "sistema \<Rightarrow> llamada \<Rightarrow> sistema" where
  "ejecutar s (Agregar e nom tel dir) = snd (agregar_cliente e nom tel dir s)"
| "ejecutar s (Registrar e cliente_id mat p precio) = snd (registrar_compra e cliente_id mat p precio s)"

definition ejecutar_todas :: "sistema \<Rightarrow> llamada list \<Rightarrow> sistema" where
  "ejecutar_todas s ls = foldl ejecutar s ls"

text \<open>
  What the repeated \<open>+=\<close> of \<open>registrar_compra\<close> computes from 0.0: the floats of a
  list added one at a time, in order, each sum rounded.
\<close>

definition acumular :: "pyfloat list \<Rightarrow> pyfloat" where
  "acumular xs = foldl float_add (py_float 0) xs"

text \<open>The three running aggregates of a customer are those of its history.\<close>

definition agregados_ok :: "cliente \<Rightarrow> bool" where
  "agregados_ok cl =
     (compras_totales cl = acumular (map total (historial cl))
      \<and> peso_total cl = acumular (map peso (historial cl))
      \<and> num_transacciones cl = int (length (historial cl)))"

text \<open>
  The invariant in the words of the specification: the two float aggregates have the
  value of the exact sums over the history.
\<close>

definition agregados_exactos :: "cliente \<Rightarrow> bool" where
  "agregados_exactos cl =
     (valor (compras_totales cl) = suma_exacta (map total (historial cl))
      \<and> valor (peso_total cl) = suma_exacta (map peso (historial cl))
      \<and> num_transacciones cl = int (length (historial cl)))"

text \<open>Every customer of the ledger is in that state.\<close>

definition ledger_ok :: "sistema \<Rightarrow> bool" where
  "ledger_ok s = list_all (\<lambda>p. agregados_ok (snd p)) (clientes s)"

section \<open>Example inputs\<close>

text \<open>
  The scenario of the specification: an empty disk, the customer of the scenario created
  first, then two purchases. A second run records 0.1, 0.2 and 0.3 kg of paper, weights
  that binary64 cannot hold exactly.
\<close>

definition reloj_ejemplo :: datetime where
  "reloj_ejemplo = \<lparr>year = 2025, month = 6, day = 15, hour = 10, minute = 30, second = 7\<rparr>"

definition entorno_ejemplo :: entorno where
  "entorno_ejemplo = \<lparr>ahora = reloj_ejemplo, resultado_escritura = Exito\<rparr>"

definition sistema_vacio :: sistema where
  "sistema_vacio = sistema_init ''clientes.json'' Map.empty"

definition cliente_juan :: cliente where
  "cliente_juan =
     \<lparr>nombre = ''Juan P'' @ [CHR 0xE9] @ ''rez'', telefono = ''555-1234'',
      direccion = ''Av. Central 10'', fecha_registro = ''2025-06-15'',
      compras_totales = py_float 0, peso_total = py_float 0, num_transacciones = 0,
      historial = [], activo = True\<rparr>"

definition sistema_juan :: sistema where
  "sistema_juan =
     snd (agregar_cliente entorno_ejemplo (''juan p'' @ [CHR 0xE9] @ ''rez'') ''555-1234''
            ''Av. Central 10'' sistema_vacio)"

definition llamadas_ejemplo :: "llamada list" where
  "llamadas_ejemplo =
     [Agregar entorno_ejemplo (''juan p'' @ [CHR 0xE9] @ ''rez'') ''555-1234'' ''Av. Central 10'',
      Registrar entorno_ejemplo 1 ''carton'' (py_float 10) None,
      Registrar entorno_ejemplo 1 ''aluminio'' (py_float 2) None,
      Agregar entorno_ejemplo ''ana'' ''555-9999'' ''Calle 2'']"

definition cliente_juan_compras :: cliente where
  "cliente_juan_compras =
     cliente_juan
       \<lparr>compras_totales := py_float 75, peso_total := py_float 12, num_transacciones := 2,
        historial :=
          [\<lparr>fecha = ''2025-06-15 10:30'', material = ''Carton'', peso = py_float 10,
            precio_kg = py_float 2.5, total = py_float 25, mes = ''2025-06''\<rparr>,
           \<lparr>fecha = ''2025-06-15 10:30'', material = ''Aluminio'', peso = py_float 2,
            precio_kg = py_float 25, total = py_float 50, mes = ''2025-06''\<rparr>]\<rparr>"

definition cliente_ana :: cliente where
  "cliente_ana =
     \<lparr>nombre = ''Ana'', telefono = ''555-9999'', direccion = ''Calle 2'',
      fecha_registro = ''2025-06-15'', compras_totales = py_float 0, peso_total = py_float 0,
      num_transacciones = 0, historial = [], activo = True\<rparr>"

definition llamadas_decimales :: "llamada list" where
  "llamadas_decimales =
     [Agregar entorno_ejemplo (''juan p'' @ [CHR 0xE9] @ ''rez'') ''555-1234'' ''Av. Central 10'',
      Registrar entorno_ejemplo 1 ''papel'' (py_float 0.1) None,
      Registrar entorno_ejemplo 1 ''papel'' (py_float 0.2) None,
      Registrar entorno_ejemplo 1 ''papel'' (py_float 0.3) None]"

text \<open>
  The customer after that run, as binary64 computes it: the weights are the floats nearest
  to 0.1, 0.2 and 0.3, the totals their rounded products with 3.0, and \<open>peso_total\<close>
  is the float that prints as 0.6000000000000001.
\<close>

definition cliente_decimales :: cliente where
  "cliente_decimales =
     cliente_juan
       \<lparr>compras_totales := Finito False (8106479329266893 / 4503599627370496),
        peso_total := Finito False (1351079888211149 / 2251799813685248),
        num_transacciones := 3,
        historial :=
          [\<lparr>fecha = ''2025-06-15 10:30'', material = ''Papel'',
            peso = Finito False (3602879701896397 / 36028797018963968),
            precio_kg = Finito False 3,
            total = Finito False (1351079888211149 / 4503599627370496), mes = ''2025-06''\<rparr>,
           \<lparr>fecha = ''2025-06-15 10:30'', material = ''Papel'',
            peso = Finito False (3602879701896397 / 18014398509481984),
            precio_kg = Finito False 3,
            total = Finito False (1351079888211149 / 2251799813685248), mes = ''2025-06''\<rparr>,
           \<lparr>fecha = ''2025-06-15 10:30'', material = ''Papel'',
            peso = Finito False (5404319552844595 / 18014398509481984),
            precio_kg = Finito False 3,
            total = Finito False (2026619832316723 / 2251799813685248), mes = ''2025-06''\<rparr>]\<rparr>"

section \<open>Auxiliary facts\<close>

lemma floor_rat_numeral: "\<lfloor>numeral a / numeral b :: rat\<rfloor> = numeral a div numeral b"
  by (metis floor_divide_of_int_eq of_int_numeral)

lemma floor_rat_one: "\<lfloor>1 / numeral b :: rat\<rfloor> = 1 div numeral b"
  by (metis floor_divide_of_int_eq of_int_1 of_int_numeral)

lemma ceiling_rat_numeral: "\<lceil>numeral a / numeral b :: rat\<rceil> = - (- numeral a div numeral b)"
  unfolding ceiling_def
  by (metis divide_minus_left floor_divide_of_int_eq of_int_neg_numeral of_int_numeral)

lemma ceiling_rat_one: "\<lceil>1 / numeral b :: rat\<rceil> = - (- 1 div numeral b)"
  unfolding ceiling_def
  by (metis divide_minus_left floor_divide_of_int_eq of_int_1 of_int_minus of_int_numeral)

lemmas flotantes =
  redondeo_par_def piso_log2_def dos_a_def redondear_def py_float_def con_signo_def
  num_bits.simps Let_def floor_rat_numeral floor_rat_one ceiling_rat_numeral ceiling_rat_one

lemmas evaluacion =
  codigo_def py_isspace_def py_strip_def es_mayuscula_def lower_char_def py_lower_def
  es_minuscula_def title_char_def py_iscased_def py_title_def char_of_def digito_def py_str_def
  es_digito_def valor_digito_def leer_natural_def int_isspace_def int_strip_def py_int_def
  py_max_def relleno_def
  bit_Suc_0_iff digitos.simps strftime_dia_def strftime_minuto_def strftime_mes_def
  strftime_timestamp_def escribir_def guardar_datos_def cargar_datos_def sistema_init_def
  cliente_nuevo_def agregar_cliente_def compra_nueva_def anotar_compra_def
  registrar_compra_def reloj_ejemplo_def entorno_ejemplo_def sistema_vacio_def
  sistema_juan_def Let_def

lemma py_float_cero: "py_float 0 = Finito False 0"
  by (simp add: flotantes)

lemma float_lt_no_le: "float_lt (py_float 0) w \<Longrightarrow> \<not> float_le w (py_float 0)"
  by (cases w) (simp_all add: py_float_cero con_signo_def split: if_splits)

lemma float_le_no_lt: "float_le x (py_float 0) \<Longrightarrow> \<not> float_lt (py_float 0) x"
  by (cases x) (simp_all add: py_float_cero con_signo_def split: if_splits)

lemma aritmetica_escenario:
  "float_mul (py_float 10) (py_float (5 / 2)) = py_float 25"
  "float_mul (py_float 2) (py_float 25) = py_float 50"
  "float_add (py_float 0) (py_float 25) = py_float 25"
  "float_add (py_float 25) (py_float 50) = py_float 75"
  "float_add (py_float 0) (py_float 10) = py_float 10"
  "float_add (py_float 10) (py_float 2) = py_float 12"
  "float_lt (py_float 0) (py_float 10)"
  "float_lt (py_float 0) (py_float 2)"
  by (simp_all add: flotantes)

lemma update_fresh: "k \<notin> fst ` set al \<Longrightarrow> AList.update k v al = al @ [(k, v)]"
  by (induction al) auto

lemma py_max_Max: "xs \<noteq> [] \<Longrightarrow> py_max xs d = Max (set xs)"
proof (cases xs)
  case Nil
  assume "xs \<noteq> []"
  with Nil show ?thesis by simp
next
  case (Cons x ys)
  have "foldl max x ys = fold max ys x"
    by (simp add: foldl_conv_fold max.commute)
  moreover have "Max (set (x # ys)) = fold max ys x"
    by (rule Max.set_eq_fold)
  ultimately show ?thesis
    using Cons by (simp add: py_max_def)
qed

lemma py_max_fresh: "py_max (map fst al) 0 + 1 \<notin> fst ` set al"
proof (cases "al = []")
  case True
  then show ?thesis by simp
next
  case False
  then have m: "py_max (map fst al) 0 = Max (fst ` set al)"
    by (simp add: py_max_Max)
  show ?thesis
  proof
    assume "py_max (map fst al) 0 + 1 \<in> fst ` set al"
    then have "py_max (map fst al) 0 + 1 \<le> Max (fst ` set al)"
      by (intro Max_ge) auto
    with m show False by simp
  qed
qed

lemma find_telefono_None:
  "find (\<lambda>(cliente_id, datos). telefono datos = tel) al = None
     \<longleftrightarrow> (\<forall>p \<in> set al. telefono (snd p) \<noteq> tel)"
  by (fastforce simp: find_None_iff)

lemma find_telefono_Some:
  "find (\<lambda>(cliente_id, datos). telefono datos = tel) al = Some (i, d)
     \<Longrightarrow> (i, d) \<in> set al \<and> telefono d = tel"
  by (auto simp: find_Some_iff in_set_conv_nth)

lemma clientes_guardar [simp]: "clientes (guardar_datos e s) = clientes s"
  by (simp add: guardar_datos_def)

lemma precios_guardar [simp]: "precios_materiales (guardar_datos e s) = precios_materiales s"
  by (simp add: guardar_datos_def)

lemma registrar_compra_ok:
  assumes "map_of (clientes s) cid = Some cl" and "\<not> float_le w (py_float 0)"
  shows "registrar_compra e cid mat w precio s =
     (Inr (float_mul w (case precio of None \<Rightarrow> precio_de s mat | Some x \<Rightarrow> x)),
      guardar_datos e (s\<lparr>clientes := AList.update cid
         (anotar_compra
            (compra_nueva (ahora e) mat w
               (case precio of None \<Rightarrow> precio_de s mat | Some x \<Rightarrow> x)) cl)
         (clientes s)\<rparr>))"
  using assms
  by (simp add: registrar_compra_def precio_de_def compra_nueva_def Let_def split: option.splits)

lemma registrar_compra_absent:
  "cid \<notin> fst ` set (clientes s) \<Longrightarrow>
   registrar_compra e cid mat w precio s = (Inl (ValueError (ClienteNoEncontrado cid)), s)"
proof -
  assume "cid \<notin> fst ` set (clientes s)"
  then have "map_of (clientes s) cid = None"
    by (simp add: map_of_eq_None_iff)
  then show ?thesis
    by (simp add: registrar_compra_def)
qed

lemma registrar_compra_peso:
  "cid \<in> fst ` set (clientes s) \<Longrightarrow> float_le w (py_float 0) \<Longrightarrow>
   registrar_compra e cid mat w precio s = (Inl (ValueError PesoNoPositivo), s)"
  by (auto simp: registrar_compra_def map_of_eq_None_iff split: option.splits)

lemma precios_registrar [simp]:
  "precios_materiales (snd (registrar_compra e cid mat w precio s)) = precios_materiales s"
  by (simp add: registrar_compra_def Let_def split: option.splits)

lemma agregar_cliente_existente:
  assumes "py_strip nom \<noteq> []" and "\<exists>p \<in> set (clientes s). telefono (snd p) = tel"
  shows "\<exists>i d. agregar_cliente e nom tel dir s = (Inr i, s)
           \<and> (i, d) \<in> set (clientes s) \<and> telefono d = tel"
proof -
  let ?f = "find (\<lambda>(cliente_id, datos). telefono datos = tel) (clientes s)"
  from assms(2) have "?f \<noteq> None"
    by (simp add: find_telefono_None)
  then obtain i d where f: "?f = Some (i, d)"
    by (cases ?f) auto
  from f have "(i, d) \<in> set (clientes s) \<and> telefono d = tel"
    by (rule find_telefono_Some)
  moreover from f assms(1) have "agregar_cliente e nom tel dir s = (Inr i, s)"
    by (simp add: agregar_cliente_def)
  ultimately show ?thesis by blast
qed

lemma agregar_cliente_nuevo:
  assumes "py_strip nom \<noteq> []" and "\<forall>p \<in> set (clientes s). telefono (snd p) \<noteq> tel"
  shows "agregar_cliente e nom tel dir s =
     (Inr (py_max (map fst (clientes s)) 0 + 1),
      guardar_datos e (s\<lparr>clientes := clientes s @
         [(py_max (map fst (clientes s)) 0 + 1, cliente_nuevo (ahora e) nom tel dir)]\<rparr>))"
proof -
  from assms(2) have "find (\<lambda>(cliente_id, datos). telefono datos = tel) (clientes s) = None"
    by (simp add: find_telefono_None)
  with assms(1) show ?thesis
    by (simp add: agregar_cliente_def Let_def update_fresh [OF py_max_fresh])
qed

lemma clientes_sistema_vacio: "clientes sistema_vacio = []"
  by (simp add: sistema_vacio_def sistema_init_def cargar_datos_def)

lemma precios_sistema_vacio: "precios_materiales sistema_vacio = precios_iniciales"
  by (simp add: sistema_vacio_def sistema_init_def cargar_datos_def)

lemma clientes_sistema_juan: "clientes sistema_juan = [(1, cliente_juan)]"
  by (simp add: evaluacion cliente_juan_def)

lemma precios_sistema_juan: "precios_materiales sistema_juan = precios_iniciales"
  by (simp add: sistema_juan_def agregar_cliente_def Let_def precios_sistema_vacio
      split: option.splits)

lemma precio_de_iniciales:
  assumes "precios_materiales s = precios_iniciales"
  shows "precio_de s ''carton'' = py_float 2.5"
    and "precio_de s ''CARTON'' = py_float 2.5"
    and "precio_de s ''aluminio'' = py_float 25"
    and "precio_de s ''papel'' = py_float 3"
    and "precio_de s ''madera'' = py_float 5"
  using assms
  by (simp_all add: precio_de_def precios_iniciales_def py_lower_def lower_char_def
      es_mayuscula_def codigo_def char_of_def bit_Suc_0_iff)

section \<open>Recording a purchase\<close>

text \<open>
  Claim C1. For a customer that is in the ledger and a weight above zero,
  \<open>registrar_compra\<close> takes the given price, or else the table's price for the
  lower-cased material, or else 5.0; it returns weight times that price, the product of
  Python's floats; and the customer's history grows by one purchase carrying the material
  (in title case, as it is stored), the weight, the price and the total. With the initial
  table and a customer whose aggregates are zero, 10 of carton returns 25.0, then 2 of
  aluminio returns 50.0, and the aggregates are then 75.0, 12.0 and 2.
\<close>

theorem registrar_compra_total:
  assumes "map_of (clientes s) cid = Some cl" and "float_lt (py_float 0) w"
  shows "(let pu = (case precio of
                      Some x \<Rightarrow> x
                    | None \<Rightarrow> (case map_of (precios_materiales s) (py_lower mat) of
                                 Some x \<Rightarrow> x
                               | None \<Rightarrow> py_float 5));
              r = registrar_compra e cid mat w precio s
          in fst r = Inr (float_mul w pu)
             \<and> (\<exists>c cl'. map_of (clientes (snd r)) cid = Some cl'
                    \<and> historial cl' = historial cl @ [c]
                    \<and> material c = py_title mat \<and> peso c = w \<and> precio_kg c = pu
                    \<and> total c = float_mul w pu))
         \<and> (precios_materiales s = precios_iniciales
              \<and> compras_totales cl = py_float 0 \<and> peso_total cl = py_float 0
              \<and> num_transacciones cl = 0
            \<longrightarrow> (let r1 = registrar_compra e cid ''carton'' (py_float 10) None s;
                     r2 = registrar_compra e' cid ''aluminio'' (py_float 2) None (snd r1)
                 in fst r1 = Inr (py_float 25) \<and> fst r2 = Inr (py_float 50)
                    \<and> (\<exists>cl2. map_of (clientes (snd r2)) cid = Some cl2
                          \<and> compras_totales cl2 = py_float 75 \<and> peso_total cl2 = py_float 12
                          \<and> num_transacciones cl2 = 2)))"
proof (intro conjI impI)
  let ?pu = "case precio of None \<Rightarrow> precio_de s mat | Some x \<Rightarrow> x"
  have pu: "(case precio of
               Some x \<Rightarrow> x
             | None \<Rightarrow> (case map_of (precios_materiales s) (py_lower mat) of
                          Some x \<Rightarrow> x
                        | None \<Rightarrow> py_float 5)) = ?pu"
    by (simp add: precio_de_def split: option.splits)
  from assms(2) have w: "\<not> float_le w (py_float 0)"
    by (rule float_lt_no_le)
  show "let pu = (case precio of
                      Some x \<Rightarrow> x
                    | None \<Rightarrow> (case map_of (precios_materiales s) (py_lower mat) of
                                 Some x \<Rightarrow> x
                               | None \<Rightarrow> py_float 5));
              r = registrar_compra e cid mat w precio s
          in fst r = Inr (float_mul w pu)
             \<and> (\<exists>c cl'. map_of (clientes (snd r)) cid = Some cl'
                    \<and> historial cl' = historial cl @ [c]
                    \<and> material c = py_title mat \<and> peso c = w \<and> precio_kg c = pu
                    \<and> total c = float_mul w pu)"
    unfolding pu Let_def registrar_compra_ok [OF assms(1) w]
    by (simp add: update_conv' anotar_compra_def compra_nueva_def)
next
  assume h: "precios_materiales s = precios_iniciales
              \<and> compras_totales cl = py_float 0 \<and> peso_total cl = py_float 0
              \<and> num_transacciones cl = 0"
  have w10: "\<not> float_le (py_float 10) (py_float 0)"
    by (rule float_lt_no_le) (rule aritmetica_escenario)
  have w2: "\<not> float_le (py_float 2) (py_float 0)"
    by (rule float_lt_no_le) (rule aritmetica_escenario)
  from h have p1: "precio_de s ''carton'' = py_float 2.5"
    by (simp add: precio_de_iniciales)
  define s1 where "s1 = snd (registrar_compra e cid ''carton'' (py_float 10) None s)"
  define cl1 where
    "cl1 = anotar_compra (compra_nueva (ahora e) ''carton'' (py_float 10) (py_float 2.5)) cl"
  have r1: "registrar_compra e cid ''carton'' (py_float 10) None s = (Inr (py_float 25), s1)"
    unfolding s1_def
    using registrar_compra_ok [OF assms(1) w10, of e "''carton''" None] p1
    by (simp add: aritmetica_escenario)
  have m1: "map_of (clientes s1) cid = Some cl1"
    unfolding s1_def cl1_def
    using registrar_compra_ok [OF assms(1) w10, of e "''carton''" None] p1
    by (simp add: update_conv')
  have "precios_materiales s1 = precios_iniciales"
    unfolding s1_def using h by simp
  then have p2: "precio_de s1 ''aluminio'' = py_float 25"
    by (simp add: precio_de_iniciales)
  have r2: "registrar_compra e' cid ''aluminio'' (py_float 2) None s1 =
      (Inr (py_float 50), guardar_datos e' (s1\<lparr>clientes := AList.update cid
         (anotar_compra (compra_nueva (ahora e') ''aluminio'' (py_float 2) (py_float 25)) cl1)
         (clientes s1)\<rparr>))"
    using registrar_compra_ok [OF m1 w2, of e' "''aluminio''" None] p2
    by (simp add: aritmetica_escenario)
  show "let r1 = registrar_compra e cid ''carton'' (py_float 10) None s;
            r2 = registrar_compra e' cid ''aluminio'' (py_float 2) None (snd r1)
        in fst r1 = Inr (py_float 25) \<and> fst r2 = Inr (py_float 50)
           \<and> (\<exists>cl2. map_of (clientes (snd r2)) cid = Some cl2
                 \<and> compras_totales cl2 = py_float 75 \<and> peso_total cl2 = py_float 12
                 \<and> num_transacciones cl2 = 2)"
    unfolding Let_def r1 using h
    by (simp add: r2 update_conv' cl1_def anotar_compra_def compra_nueva_def
        aritmetica_escenario)
qed

lemma aritmetica_witness:
  "float_mul (py_float 2) (py_float 5) = py_float 10"
  "float_mul (py_float 2) (py_float (3 / 2)) = py_float 3"
  "float_mul (py_float (1 / 10)) (py_float 3)
     = Finito False (1351079888211149 / 4503599627370496)"
  "float_lt (py_float 0) (py_float (1 / 10))"
  by (simp_all add: flotantes)

theorem registrar_compra_total_witness:
  "fst (registrar_compra entorno_ejemplo 1 ''carton'' (py_float 10) None sistema_juan)
     = Inr (py_float 25)
   \<and> fst (registrar_compra entorno_ejemplo 1 ''aluminio'' (py_float 2) None
            (snd (registrar_compra entorno_ejemplo 1 ''carton'' (py_float 10) None
               sistema_juan))) = Inr (py_float 50)
   \<and> (\<exists>cl2. map_of (clientes (snd (registrar_compra entorno_ejemplo 1 ''aluminio''
                (py_float 2) None
                (snd (registrar_compra entorno_ejemplo 1 ''carton'' (py_float 10) None
                   sistema_juan))))) 1
              = Some cl2
          \<and> compras_totales cl2 = py_float 75 \<and> peso_total cl2 = py_float 12
          \<and> num_transacciones cl2 = 2)
   \<and> fst (registrar_compra entorno_ejemplo 1 ''CARTON'' (py_float 10) None sistema_juan)
     = Inr (py_float 25)
   \<and> (\<exists>c cl'. map_of (clientes (snd (registrar_compra entorno_ejemplo 1 ''CARTON''
                  (py_float 10) None sistema_juan))) 1 = Some cl'
          \<and> historial cl' = [c] \<and> material c = ''Carton'' \<and> peso c = py_float 10
          \<and> precio_kg c = py_float (5 / 2) \<and> total c = py_float 25)
   \<and> fst (registrar_compra entorno_ejemplo 1 ''madera'' (py_float 2) None sistema_juan)
     = Inr (py_float 10)
   \<and> fst (registrar_compra entorno_ejemplo 1 ''Vidrio'' (py_float 2) (Some (py_float (3 / 2)))
          sistema_juan) = Inr (py_float 3)
   \<and> fst (registrar_compra entorno_ejemplo 1 ''papel'' (py_float (1 / 10)) None sistema_juan)
     = Inr (Finito False (1351079888211149 / 4503599627370496))"
proof -
  have h1: "map_of (clientes sistema_juan) 1 = Some cliente_juan"
    by (simp add: clientes_sistema_juan)
  have w10: "float_lt (py_float 0) (py_float 10)"
    by (rule aritmetica_escenario)
  have w2: "float_lt (py_float 0) (py_float 2)"
    by (rule aritmetica_escenario)
  have w01: "float_lt (py_float 0) (py_float (1 / 10))"
    by (rule aritmetica_witness)
  have h3: "precios_materiales sistema_juan = precios_iniciales
      \<and> compras_totales cliente_juan = py_float 0 \<and> peso_total cliente_juan = py_float 0
      \<and> num_transacciones cliente_juan = 0"
    by (simp add: precios_sistema_juan cliente_juan_def)
  note tabla = precios_sistema_juan precios_iniciales_def py_lower_def lower_char_def
    es_mayuscula_def codigo_def char_of_def bit_Suc_0_iff Let_def
  from registrar_compra_total [OF h1 w10, where e = entorno_ejemplo and e' = entorno_ejemplo]
  have "precios_materiales sistema_juan = precios_iniciales
      \<and> compras_totales cliente_juan = py_float 0 \<and> peso_total cliente_juan = py_float 0
      \<and> num_transacciones cliente_juan = 0
      \<longrightarrow> (let r1 = registrar_compra entorno_ejemplo 1 ''carton'' (py_float 10) None
                       sistema_juan;
               r2 = registrar_compra entorno_ejemplo 1 ''aluminio'' (py_float 2) None (snd r1)
           in fst r1 = Inr (py_float 25) \<and> fst r2 = Inr (py_float 50)
              \<and> (\<exists>cl2. map_of (clientes (snd r2)) 1 = Some cl2
                    \<and> compras_totales cl2 = py_float 75 \<and> peso_total cl2 = py_float 12
                    \<and> num_transacciones cl2 = 2))"
    by (rule conjunct2)
  with h3 have a: "fst (registrar_compra entorno_ejemplo 1 ''carton'' (py_float 10) None
        sistema_juan) = Inr (py_float 25)
   \<and> fst (registrar_compra entorno_ejemplo 1 ''aluminio'' (py_float 2) None
            (snd (registrar_compra entorno_ejemplo 1 ''carton'' (py_float 10) None
               sistema_juan))) = Inr (py_float 50)
   \<and> (\<exists>cl2. map_of (clientes (snd (registrar_compra entorno_ejemplo 1 ''aluminio''
                (py_float 2) None
                (snd (registrar_compra entorno_ejemplo 1 ''carton'' (py_float 10) None
                   sistema_juan))))) 1
              = Some cl2
          \<and> compras_totales cl2 = py_float 75 \<and> peso_total cl2 = py_float 12
          \<and> num_transacciones cl2 = 2)"
    by (simp add: Let_def)
  have t: "py_title ''CARTON'' = ''Carton''"
    by (simp add: evaluacion)
  have b: "fst (registrar_compra entorno_ejemplo 1 ''CARTON'' (py_float 10) None sistema_juan)
     = Inr (py_float 25)
   \<and> (\<exists>c cl'. map_of (clientes (snd (registrar_compra entorno_ejemplo 1 ''CARTON''
                  (py_float 10) None sistema_juan))) 1 = Some cl'
          \<and> historial cl' = [c] \<and> material c = ''Carton'' \<and> peso c = py_float 10
          \<and> precio_kg c = py_float (5 / 2) \<and> total c = py_float 25)"
    using registrar_compra_total [OF h1 w10, where e = entorno_ejemplo and mat = "''CARTON''"
        and precio = None, THEN conjunct1]
    by (simp add: tabla t aritmetica_escenario cliente_juan_def)
  have c: "fst (registrar_compra entorno_ejemplo 1 ''madera'' (py_float 2) None sistema_juan)
     = Inr (py_float 10)"
    using registrar_compra_total [OF h1 w2, where e = entorno_ejemplo and mat = "''madera''"
        and precio = None, THEN conjunct1]
    by (simp add: tabla aritmetica_witness)
  have d: "fst (registrar_compra entorno_ejemplo 1 ''Vidrio'' (py_float 2)
          (Some (py_float (3 / 2))) sistema_juan) = Inr (py_float 3)"
    using registrar_compra_total [OF h1 w2, where e = entorno_ejemplo and mat = "''Vidrio''"
        and precio = "Some (py_float (3 / 2))", THEN conjunct1]
    by (simp add: Let_def aritmetica_witness)
  have e: "fst (registrar_compra entorno_ejemplo 1 ''papel'' (py_float (1 / 10)) None
        sistema_juan) = Inr (Finito False (1351079888211149 / 4503599627370496))"
    using registrar_compra_total [OF h1 w01, where e = entorno_ejemplo and mat = "''papel''"
        and precio = None, THEN conjunct1]
    by (simp add: tabla aritmetica_witness)
  from a b c d e show ?thesis
    by blast
qed

text \<open>
  Claim C3. \<open>registrar_compra\<close> raises the not-found \<open>ValueError\<close> when the id is
  not a key of the ledger, and the weight \<open>ValueError\<close> when the id is a key and the
  weight is zero or less; either way the whole state, ledger included, is as before.
\<close>

theorem registrar_compra_errores:
  "(cid \<notin> fst ` set (clientes s) \<longrightarrow>
      registrar_compra e cid mat w precio s = (Inl (ValueError (ClienteNoEncontrado cid)), s))
   \<and> (cid \<in> fst ` set (clientes s) \<and> float_le w (py_float 0) \<longrightarrow>
      registrar_compra e cid mat w precio s = (Inl (ValueError PesoNoPositivo), s))"
  by (simp add: registrar_compra_absent registrar_compra_peso)

lemma pesos_no_positivos:
  "float_le (py_float 0) (py_float 0)"
  "float_le (py_float (- 2)) (py_float 0)"
  by (simp_all add: flotantes)

theorem registrar_compra_errores_witness:
  "registrar_compra entorno_ejemplo 7 ''carton'' (py_float 10) None sistema_juan
     = (Inl (ValueError (ClienteNoEncontrado 7)), sistema_juan)
   \<and> registrar_compra entorno_ejemplo 1 ''carton'' (py_float 0) None sistema_juan
     = (Inl (ValueError PesoNoPositivo), sistema_juan)
   \<and> registrar_compra entorno_ejemplo 1 ''carton'' (py_float (- 2)) None sistema_juan
     = (Inl (ValueError PesoNoPositivo), sistema_juan)"
  using
    registrar_compra_errores [where cid = 7 and s = sistema_juan and e = entorno_ejemplo
      and mat = "''carton''" and w = "py_float 10" and precio = None]
    registrar_compra_errores [where cid = 1 and s = sistema_juan and e = entorno_ejemplo
      and mat = "''carton''" and w = "py_float 0" and precio = None]
    registrar_compra_errores [where cid = 1 and s = sistema_juan and e = entorno_ejemplo
      and mat = "''carton''" and w = "py_float (- 2)" and precio = None]
  by (simp add: clientes_sistema_juan pesos_no_positivos)

text \<open>
  Claim C9. When the id is not a key of the ledger and the weight is zero or less, the
  error raised is the not-found one, not the weight one: the id is checked first.
\<close>

theorem registrar_compra_orden:
  assumes "cid \<notin> fst ` set (clientes s)" and "float_le w (py_float 0)"
  shows "fst (registrar_compra e cid mat w precio s) = Inl (ValueError (ClienteNoEncontrado cid))
         \<and> fst (registrar_compra e cid mat w precio s) \<noteq> Inl (ValueError PesoNoPositivo)"
  using assms(1) by (simp add: registrar_compra_absent)

theorem registrar_compra_orden_witness:
  "fst (registrar_compra entorno_ejemplo 7 ''carton'' (py_float (- 2)) None sistema_juan)
     = Inl (ValueError (ClienteNoEncontrado 7))
   \<and> fst (registrar_compra entorno_ejemplo 7 ''carton'' (py_float (- 2)) None sistema_juan)
     \<noteq> Inl (ValueError PesoNoPositivo)"
proof -
  have h1: "(7::int) \<notin> fst ` set (clientes sistema_juan)"
    by (simp add: clientes_sistema_juan)
  have h2: "float_le (py_float (- 2)) (py_float 0)"
    by (rule pesos_no_positivos)
  show ?thesis
    by (rule registrar_compra_orden [OF h1 h2])
qed

section \<open>Creating a customer\<close>

text \<open>
  Claim C4. For a name that is not empty once trimmed: when some customer, active or
  not, has the given phone, \<open>agregar_cliente\<close> returns the id of a customer with that
  phone and the state is as before; when none has it, the call returns the greatest id
  plus one (1 for an empty ledger) and the ledger gains, at its end, a customer under that
  id whose totals and count are zero and whose history is empty.
\<close>

theorem agregar_cliente_frame:
  assumes "py_strip nom \<noteq> []"
  shows "((\<exists>p \<in> set (clientes s). telefono (snd p) = tel) \<longrightarrow>
            (\<exists>i d. agregar_cliente e nom tel dir s = (Inr i, s)
                \<and> (i, d) \<in> set (clientes s) \<and> telefono d = tel))
         \<and> ((\<forall>p \<in> set (clientes s). telefono (snd p) \<noteq> tel) \<longrightarrow>
            (\<exists>cl. fst (agregar_cliente e nom tel dir s)
                     = Inr (if clientes s = [] then 1 else Max (fst ` set (clientes s)) + 1)
                \<and> clientes (snd (agregar_cliente e nom tel dir s))
                     = clientes s
                       @ [(if clientes s = [] then 1 else Max (fst ` set (clientes s)) + 1, cl)]
                \<and> compras_totales cl = py_float 0 \<and> peso_total cl = py_float 0
                \<and> num_transacciones cl = 0 \<and> historial cl = []))"
proof (intro conjI impI)
  assume "\<exists>p \<in> set (clientes s). telefono (snd p) = tel"
  with assms show "\<exists>i d. agregar_cliente e nom tel dir s = (Inr i, s)
                \<and> (i, d) \<in> set (clientes s) \<and> telefono d = tel"
    by (rule agregar_cliente_existente)
next
  assume n: "\<forall>p \<in> set (clientes s). telefono (snd p) \<noteq> tel"
  have k: "py_max (map fst (clientes s)) 0 + 1
             = (if clientes s = [] then 1 else Max (fst ` set (clientes s)) + 1)"
    by (cases "clientes s = []") (simp_all add: py_max_Max, simp add: py_max_def)
  show "\<exists>cl. fst (agregar_cliente e nom tel dir s)
                     = Inr (if clientes s = [] then 1 else Max (fst ` set (clientes s)) + 1)
                \<and> clientes (snd (agregar_cliente e nom tel dir s))
                     = clientes s
                       @ [(if clientes s = [] then 1 else Max (fst ` set (clientes s)) + 1, cl)]
                \<and> compras_totales cl = py_float 0 \<and> peso_total cl = py_float 0
                \<and> num_transacciones cl = 0 \<and> historial cl = []"
    unfolding agregar_cliente_nuevo [OF assms n] k
    by (rule exI [of _ "cliente_nuevo (ahora e) nom tel dir"]) (simp add: cliente_nuevo_def)
qed

theorem agregar_cliente_frame_witness:
  "agregar_cliente entorno_ejemplo ''Ana'' ''555-1234'' ''Calle 2'' sistema_juan
     = (Inr 1, sistema_juan)
   \<and> fst (agregar_cliente entorno_ejemplo ''Ana'' ''555-9999'' ''Calle 2'' sistema_juan) = Inr 2
   \<and> map fst (clientes (snd (agregar_cliente entorno_ejemplo ''Ana'' ''555-9999'' ''Calle 2''
        sistema_juan))) = [1, 2]
   \<and> fst (agregar_cliente entorno_ejemplo ''Ana'' ''555-9999'' ''Calle 2'' sistema_vacio) = Inr 1"
proof -
  have h: "py_strip ''Ana'' \<noteq> []"
    by (simp add: py_strip_def py_isspace_def codigo_def)
  have a: "agregar_cliente entorno_ejemplo ''Ana'' ''555-1234'' ''Calle 2'' sistema_juan
     = (Inr 1, sistema_juan)"
    using agregar_cliente_frame [OF h, of sistema_juan "''555-1234''" entorno_ejemplo "''Calle 2''"]
    by (auto simp: clientes_sistema_juan cliente_juan_def)
  have b: "fst (agregar_cliente entorno_ejemplo ''Ana'' ''555-9999'' ''Calle 2'' sistema_juan) = Inr 2
   \<and> map fst (clientes (snd (agregar_cliente entorno_ejemplo ''Ana'' ''555-9999'' ''Calle 2''
        sistema_juan))) = [1, 2]"
    using agregar_cliente_frame [OF h, of sistema_juan "''555-9999''" entorno_ejemplo "''Calle 2''"]
    by (auto simp: clientes_sistema_juan cliente_juan_def)
  have c: "fst (agregar_cliente entorno_ejemplo ''Ana'' ''555-9999'' ''Calle 2'' sistema_vacio) = Inr 1"
    using agregar_cliente_frame [OF h, of sistema_vacio "''555-9999''" entorno_ejemplo "''Calle 2''"]
    by (auto simp: clientes_sistema_vacio)
  from a b c show ?thesis by simp
qed

section \<open>Export with an unknown format\<close>

text \<open>
  Claim C8. For a format that is neither json nor csv once lower-cased,
  \<open>exportar_datos\<close> writes nothing (the state, disk included, is as before) and
  returns no file name: reading the unassigned \<open>archivo\<close> raises.
\<close>

theorem exportar_datos_formato_desconocido:
  assumes "py_lower formato \<noteq> ''json''" and "py_lower formato \<noteq> ''csv''"
  shows "exportar_datos e formato s = (Inl UnboundLocalError, s)"
  using assms by (simp add: exportar_datos_def Let_def)

theorem exportar_datos_formato_desconocido_witness:
  "exportar_datos entorno_ejemplo ''XML'' sistema_juan = (Inl UnboundLocalError, sistema_juan)"
proof -
  have h1: "py_lower ''XML'' \<noteq> ''json''"
    by (simp add: py_lower_def)
  have h2: "py_lower ''XML'' \<noteq> ''csv''"
    by (simp add: py_lower_def lower_char_def es_mayuscula_def codigo_def char_of_def
        bit_Suc_0_iff)
  show ?thesis
    by (rule exportar_datos_formato_desconocido [OF h1 h2])
qed

section \<open>Saving and loading\<close>

text \<open>Reading back the decimal form of an integer gives the integer.\<close>

lemma codigo_digito: "d < 10 \<Longrightarrow> codigo (digito d) = 48 + d"
  by (simp add: codigo_def digito_def of_char_of)

lemma es_digito_digito: "d < 10 \<Longrightarrow> es_digito (digito d)"
  by (simp add: es_digito_def codigo_digito)

lemma valor_digito_digito: "d < 10 \<Longrightarrow> valor_digito (digito d) = d"
  by (simp add: valor_digito_def codigo_digito)

lemma digitos_no_vacio: "digitos n \<noteq> []"
  by (subst digitos.simps) simp

lemma digitos_son_digitos: "c \<in> set (digitos n) \<Longrightarrow> es_digito c"
proof (induction n rule: digitos.induct)
  case (1 n)
  show ?case
  proof (cases "n < 10")
    case True
    with "1.prems" show ?thesis
      by (subst (asm) digitos.simps) (simp add: es_digito_digito)
  next
    case False
    with "1.prems" have "c \<in> set (digitos (n div 10)) \<or> c = digito (n mod 10)"
      by (subst (asm) digitos.simps) auto
    with False "1.IH" show ?thesis
      by (auto simp: es_digito_digito)
  qed
qed

lemma leer_digitos_todos:
  "\<forall>c \<in> set ds. es_digito c \<Longrightarrow>
   leer_digitos acc ds = Some (foldl (\<lambda>a c. 10 * a + valor_digito c) acc ds)"
  by (induction ds arbitrary: acc) simp_all

lemma valor_digitos: "foldl (\<lambda>a c. 10 * a + valor_digito c) 0 (digitos n) = n"
proof (induction n rule: digitos.induct)
  case (1 n)
  show ?case
  proof (cases "n < 10")
    case True
    then show ?thesis
      by (subst digitos.simps) (simp add: valor_digito_digito)
  next
    case False
    with "1.IH" show ?thesis
      by (subst digitos.simps) (simp add: valor_digito_digito)
  qed
qed

lemma leer_natural_digitos: "leer_natural (digitos n) = Some n"
proof -
  obtain c cs where ds: "digitos n = c # cs"
    using digitos_no_vacio [of n] by (cases "digitos n") auto
  have todos: "\<forall>c \<in> set (digitos n). es_digito c"
    by (simp add: digitos_son_digitos)
  with ds have c: "es_digito c"
    by simp
  then have "leer_natural (c # cs) = leer_digitos 0 (c # cs)"
    by (simp add: leer_natural_def)
  also have "\<dots> = Some (foldl (\<lambda>a c. 10 * a + valor_digito c) 0 (c # cs))"
    using todos ds leer_digitos_todos [of "c # cs" 0] by simp
  finally show ?thesis
    using ds valor_digitos [of n] by simp
qed

lemma dropWhile_id: "xs \<noteq> [] \<Longrightarrow> \<not> P (hd xs) \<Longrightarrow> dropWhile P xs = xs"
  by (cases xs) simp_all

lemma int_strip_id:
  assumes "s \<noteq> []" and "\<not> int_isspace (hd s)" and "\<not> int_isspace (last s)"
  shows "int_strip s = s"
proof -
  from assms(1,2) have a: "dropWhile int_isspace s = s"
    by (rule dropWhile_id)
  from assms(1,3) have "dropWhile int_isspace (rev s) = rev s"
    by (intro dropWhile_id) (simp_all add: hd_rev)
  with a show ?thesis
    by (simp add: int_strip_def)
qed

lemma digito_no_espacio: "es_digito c \<Longrightarrow> \<not> int_isspace c"
  by (simp add: es_digito_def int_isspace_def Let_def)

lemma digito_no_signo: "es_digito c \<Longrightarrow> c \<noteq> CHR ''-'' \<and> c \<noteq> CHR ''+''"
  by (auto simp: es_digito_def codigo_def)

lemma py_int_py_str: "py_int (py_str k) = Some k"
proof (cases "k < 0")
  case False
  obtain c cs where ds: "digitos (nat k) = c # cs"
    using digitos_no_vacio [of "nat k"] by (cases "digitos (nat k)") auto
  have todos: "\<And>x. x \<in> set (digitos (nat k)) \<Longrightarrow> es_digito x"
    by (rule digitos_son_digitos)
  have c: "es_digito c"
    using ds todos by simp
  have l: "es_digito (last (c # cs))"
    using ds todos [of "last (c # cs)"] by (metis last_in_set list.discI)
  have "int_strip (c # cs) = c # cs"
    using c l by (intro int_strip_id) (simp_all add: digito_no_espacio)
  then show ?thesis
    using False ds c leer_natural_digitos [of "nat k"] digito_no_signo [OF c]
    by (simp add: py_int_def py_str_def)
next
  case True
  obtain c cs where ds: "digitos (nat (- k)) = c # cs"
    using digitos_no_vacio [of "nat (- k)"] by (cases "digitos (nat (- k))") auto
  have todos: "\<And>x. x \<in> set (digitos (nat (- k))) \<Longrightarrow> es_digito x"
    by (rule digitos_son_digitos)
  have l: "es_digito (last (c # cs))"
    using ds todos [of "last (c # cs)"] by (metis last_in_set list.discI)
  have m: "\<not> int_isspace (CHR ''-'')"
    by (simp add: int_isspace_def codigo_def)
  have "int_strip (CHR ''-'' # c # cs) = CHR ''-'' # c # cs"
    using m l by (intro int_strip_id) (simp_all add: digito_no_espacio)
  then show ?thesis
    using True ds leer_natural_digitos [of "nat (- k)"]
    by (simp add: py_int_def py_str_def)
qed

lemma claves_enteras_dump:
  "distinct (map fst (acc @ cs)) \<Longrightarrow> claves_enteras (json_dump cs) acc = Some (acc @ cs)"
proof (induction cs arbitrary: acc)
  case Nil
  then show ?case by (simp add: json_dump_def)
next
  case (Cons p cs)
  obtain k v where p: "p = (k, v)"
    by (cases p)
  from Cons.prems p have fresh: "k \<notin> fst ` set acc"
    by auto
  from Cons.prems p have "distinct (map fst ((acc @ [(k, v)]) @ cs))"
    by auto
  then have "claves_enteras (json_dump cs) (acc @ [(k, v)]) = Some ((acc @ [(k, v)]) @ cs)"
    by (rule Cons.IH)
  then show ?case
    using p fresh by (simp add: json_dump_def py_int_py_str update_fresh)
qed

lemma clientes_tras_llamadas:
  "clientes (ejecutar_todas sistema_vacio llamadas_ejemplo)
     = [(1, cliente_juan_compras), (2, cliente_ana)]"
  by (simp add: evaluacion flotantes ejecutar_todas_def llamadas_ejemplo_def
      cliente_juan_compras_def cliente_juan_def cliente_ana_def precios_iniciales_def)

lemma clientes_tras_decimales:
  "clientes (ejecutar_todas sistema_vacio llamadas_decimales) = [(1, cliente_decimales)]"
  by (simp add: evaluacion flotantes ejecutar_todas_def llamadas_decimales_def
      cliente_decimales_def cliente_juan_def precios_iniciales_def)

text \<open>
  Claim C6. A ledger is a dictionary, so its keys are distinct. When the write succeeds,
  \<open>guardar_datos\<close> followed by \<open>cargar_datos\<close>, in the same object or in a new
  one started on the same file, gives the same ledger: the same ids in the same order,
  each with the same customer record and so the same history. (The values of a record go
  through \<open>json\<close> unchanged, which is the library's part; the program's part is the
  keys, written by \<open>str\<close> and read by \<open>int\<close>.)
\<close>

theorem guardar_cargar_ida_y_vuelta:
  assumes "distinct (map fst (clientes s))" and "resultado_escritura e = Exito"
  shows "clientes (cargar_datos (guardar_datos e s)) = clientes s
         \<and> clientes (sistema_init (archivo_datos s) (disco (guardar_datos e s))) = clientes s"
proof -
  from assms(1) have "claves_enteras (json_dump (clientes s)) [] = Some (clientes s)"
    using claves_enteras_dump [of "[]" "clientes s"] by simp
  with assms(2) show ?thesis
    by (simp add: cargar_datos_def guardar_datos_def escribir_def sistema_init_def)
qed

theorem guardar_cargar_ida_y_vuelta_witness:
  "clientes (cargar_datos (guardar_datos entorno_ejemplo
       (ejecutar_todas sistema_vacio llamadas_ejemplo)))
     = [(1, cliente_juan_compras), (2, cliente_ana)]
   \<and> clientes (sistema_init (archivo_datos (ejecutar_todas sistema_vacio llamadas_ejemplo))
       (disco (guardar_datos entorno_ejemplo (ejecutar_todas sistema_vacio llamadas_ejemplo))))
     = [(1, cliente_juan_compras), (2, cliente_ana)]"
proof -
  have h1: "distinct (map fst (clientes (ejecutar_todas sistema_vacio llamadas_ejemplo)))"
    by (simp add: clientes_tras_llamadas)
  have h2: "resultado_escritura entorno_ejemplo = Exito"
    by (simp add: entorno_ejemplo_def)
  from guardar_cargar_ida_y_vuelta [OF h1 h2] show ?thesis
    by (simp add: clientes_tras_llamadas)
qed

section \<open>The running aggregates\<close>

lemma set_update_subset: "set (AList.update k v al) \<subseteq> insert (k, v) (set al)"
  by (induction al) auto

lemma agregados_cliente_nuevo: "agregados_ok (cliente_nuevo t nom tel dir)"
  by (simp add: agregados_ok_def cliente_nuevo_def acumular_def)

lemma agregados_anotar: "agregados_ok cl \<Longrightarrow> agregados_ok (anotar_compra c cl)"
  by (simp add: agregados_ok_def anotar_compra_def acumular_def)

lemma ledger_ok_update:
  assumes "ledger_ok s" and "agregados_ok v"
  shows "ledger_ok (guardar_datos e (s\<lparr>clientes := AList.update k v (clientes s)\<rparr>))"
  using assms set_update_subset [of k v "clientes s"]
  by (auto simp: ledger_ok_def list_all_iff)

lemma ledger_ok_agregar: "ledger_ok s \<Longrightarrow> ledger_ok (snd (agregar_cliente e nom tel dir s))"
  by (simp add: agregar_cliente_def Let_def ledger_ok_update agregados_cliente_nuevo
      split: option.splits)

lemma ledger_ok_registrar:
  assumes "ledger_ok s"
  shows "ledger_ok (snd (registrar_compra e cid mat w precio s))"
proof (cases "map_of (clientes s) cid")
  case None
  with assms show ?thesis
    by (simp add: registrar_compra_def)
next
  case (Some cl)
  then have "(cid, cl) \<in> set (clientes s)"
    by (rule map_of_SomeD)
  with assms have "agregados_ok cl"
    by (auto simp: ledger_ok_def list_all_iff)
  with assms Some show ?thesis
    by (simp add: registrar_compra_def Let_def ledger_ok_update agregados_anotar)
qed

lemma ledger_ok_ejecutar: "ledger_ok s \<Longrightarrow> ledger_ok (ejecutar s l)"
  by (cases l) (simp_all add: ledger_ok_agregar ledger_ok_registrar)

lemma ledger_ok_ejecutar_todas: "ledger_ok s \<Longrightarrow> ledger_ok (ejecutar_todas s ls)"
  unfolding ejecutar_todas_def
  by (induction ls arbitrary: s) (simp_all add: ledger_ok_ejecutar)

lemma suma_pesos_decimales:
  "suma_exacta (map peso (historial cliente_decimales))
     = Some (21617278211378381 / 36028797018963968)"
  by (simp add: cliente_decimales_def con_signo_def)

text \<open>
  Claim C2 says that \<open>compras_totales\<close> and \<open>peso_total\<close> equal the sums over the
  history. The code adds in binary64 and rounds at each \<open>+=\<close>: from an empty ledger,
  after purchases of 0.1, 0.2 and 0.3 kg the stored \<open>peso_total\<close> is
  0.6000000000000001, which is not the sum of the three stored weights.
\<close>

theorem agregados_no_exactos:
  "clientes (ejecutar_todas sistema_vacio llamadas_decimales) = [(1, cliente_decimales)]
   \<and> map peso (historial cliente_decimales)
       = [py_float (1 / 10), py_float (2 / 10), py_float (3 / 10)]
   \<and> valor (peso_total cliente_decimales) = Some (1351079888211149 / 2251799813685248)
   \<and> suma_exacta (map peso (historial cliente_decimales))
       = Some (21617278211378381 / 36028797018963968)
   \<and> valor (peso_total cliente_decimales)
       \<noteq> suma_exacta (map peso (historial cliente_decimales))
   \<and> \<not> agregados_exactos cliente_decimales"
proof -
  have a: "map peso (historial cliente_decimales)
       = [py_float (1 / 10), py_float (2 / 10), py_float (3 / 10)]"
    by (simp add: cliente_decimales_def flotantes)
  have b: "valor (peso_total cliente_decimales) = Some (1351079888211149 / 2251799813685248)"
    by (simp add: cliente_decimales_def con_signo_def)
  have c: "valor (peso_total cliente_decimales)
       \<noteq> suma_exacta (map peso (historial cliente_decimales))"
    unfolding b suma_pesos_decimales by simp
  from c have d: "\<not> agregados_exactos cliente_decimales"
    by (simp add: agregados_exactos_def)
  show ?thesis
    by (intro conjI) (rule clientes_tras_decimales a b suma_pesos_decimales c d)+
qed

text \<open>
  Claim C2, amended. Starting from an empty ledger, after any sequence of calls of
  \<open>agregar_cliente\<close> and \<open>registrar_compra\<close> (failed calls included), every
  customer's \<open>num_transacciones\<close> is the length of its history, and
  \<open>compras_totales\<close> and \<open>peso_total\<close> are the floats obtained by adding the totals
  and the weights of the history one at a time, in order, from 0.0, each addition rounded
  as binary64 does.
\<close>

theorem agregados_invariante:
  assumes "clientes s0 = []" and "(i, cl) \<in> set (clientes (ejecutar_todas s0 ls))"
  shows "compras_totales cl = acumular (map total (historial cl))
         \<and> peso_total cl = acumular (map peso (historial cl))
         \<and> num_transacciones cl = int (length (historial cl))"
proof -
  from assms(1) have "ledger_ok s0"
    by (simp add: ledger_ok_def)
  then have "ledger_ok (ejecutar_todas s0 ls)"
    by (rule ledger_ok_ejecutar_todas)
  with assms(2) have "agregados_ok cl"
    by (auto simp: ledger_ok_def list_all_iff)
  then show ?thesis
    by (simp add: agregados_ok_def)
qed

theorem agregados_invariante_witness:
  "(1, cliente_decimales) \<in> set (clientes (ejecutar_todas sistema_vacio llamadas_decimales))
   \<and> compras_totales cliente_decimales = acumular (map total (historial cliente_decimales))
   \<and> peso_total cliente_decimales = acumular (map peso (historial cliente_decimales))
   \<and> num_transacciones cliente_decimales = int (length (historial cliente_decimales))
   \<and> peso_total cliente_decimales = Finito False (1351079888211149 / 2251799813685248)
   \<and> (1, cliente_juan_compras) \<in> set (clientes (ejecutar_todas sistema_vacio llamadas_ejemplo))
   \<and> compras_totales cliente_juan_compras
       = acumular (map total (historial cliente_juan_compras))
   \<and> compras_totales cliente_juan_compras = py_float 75"
proof -
  have h1: "clientes sistema_vacio = []"
    by (rule clientes_sistema_vacio)
  have h2: "(1, cliente_decimales)
      \<in> set (clientes (ejecutar_todas sistema_vacio llamadas_decimales))"
    by (simp add: clientes_tras_decimales)
  have h3: "(1, cliente_juan_compras)
      \<in> set (clientes (ejecutar_todas sistema_vacio llamadas_ejemplo))"
    by (simp add: clientes_tras_llamadas)
  have v: "peso_total cliente_decimales = Finito False (1351079888211149 / 2251799813685248)"
    by (simp add: cliente_decimales_def)
  have w: "compras_totales cliente_juan_compras = py_float 75"
    by (simp add: cliente_juan_compras_def)
  from agregados_invariante [OF h1 h2] agregados_invariante [OF h1 h3] h2 h3 v w
  show ?thesis
    by blast
qed

section \<open>A price given by the caller\<close>

lemma aritmetica_negativa:
  "\<not> float_le (py_float 1) (py_float 0)"
  "float_mul (py_float 1) (py_float (- 3)) = py_float (- 3)"
  "float_add (py_float 0) (py_float (- 3)) = py_float (- 3)"
  "float_add (py_float 0) (py_float 1) = py_float 1"
  "float_lt (py_float (- 3)) (py_float 0)"
  by (simp_all add: flotantes)

text \<open>
  Claim C5 says that every stored purchase has a price above zero and that no total is
  negative. \<open>registrar_compra\<close> tests the weight but not a price given by the caller
  (while \<open>configurar_precios\<close> refuses a price that is not above zero): with the price
  -3.0 for 1 kg, the purchase is stored with \<open>precio_kg = -3.0\<close> and the customer's
  \<open>compras_totales\<close> becomes -3.0, which is below zero.
\<close>

theorem registrar_compra_precio_negativo:
  "fst (registrar_compra entorno_ejemplo 1 ''carton'' (py_float 1) (Some (py_float (- 3)))
          sistema_juan) = Inr (py_float (- 3))
   \<and> map_of (clientes (snd (registrar_compra entorno_ejemplo 1 ''carton'' (py_float 1)
          (Some (py_float (- 3))) sistema_juan))) 1
     = Some (cliente_juan
         \<lparr>compras_totales := py_float (- 3), peso_total := py_float 1, num_transacciones := 1,
          historial := [\<lparr>fecha = ''2025-06-15 10:30'', material = ''Carton'',
                         peso = py_float 1, precio_kg = py_float (- 3),
                         total = py_float (- 3), mes = ''2025-06''\<rparr>]\<rparr>)
   \<and> float_lt (py_float (- 3)) (py_float 0)"
proof -
  have h1: "map_of (clientes sistema_juan) 1 = Some cliente_juan"
    by (simp add: clientes_sistema_juan)
  have h2: "\<not> float_le (py_float 1) (py_float 0)"
    by (rule aritmetica_negativa)
  have f: "strftime_minuto (ahora entorno_ejemplo) = ''2025-06-15 10:30''
      \<and> strftime_mes (ahora entorno_ejemplo) = ''2025-06''
      \<and> py_title ''carton'' = ''Carton''"
    by (simp add: evaluacion)
  show ?thesis
    unfolding registrar_compra_ok [OF h1 h2]
    by (simp add: update_conv' anotar_compra_def compra_nueva_def f cliente_juan_def
        aritmetica_negativa)
qed

section \<open>Changing a price\<close>

lemma precio_de_sistema_vacio_madera: "precio_de sistema_vacio ''madera'' = py_float 5"
  by (simp add: precio_de_iniciales precios_sistema_vacio)

lemma precios_distintos: "py_float 5 \<noteq> py_float 7"
  by (simp add: flotantes)

text \<open>
  Claim C7 says that setting a price above zero for any material overwrites or inserts
  the entry, so that the price is found afterwards. For a material that is not in the
  table, \<open>configurar_precios\<close> changes nothing: the price of madera stays the default.
\<close>

theorem configurar_precios_no_inserta:
  "configurar_precios ''madera'' (Some (py_float 7)) sistema_vacio
     = (MaterialNoEncontrado, sistema_vacio)
   \<and> float_lt (py_float 0) (py_float 7)
   \<and> precio_de (snd (configurar_precios ''madera'' (Some (py_float 7)) sistema_vacio))
        ''madera'' \<noteq> py_float 7"
proof -
  have "configurar_precios ''madera'' (Some (py_float 7)) sistema_vacio
      = (MaterialNoEncontrado, sistema_vacio)"
    by (simp add: configurar_precios_def precios_sistema_vacio precios_iniciales_def evaluacion)
  moreover have "float_lt (py_float 0) (py_float 7)"
    by (simp add: flotantes)
  ultimately show ?thesis
    by (simp add: precio_de_sistema_vacio_madera precios_distintos)
qed

lemma map_fst_update_presente:
  "k \<in> fst ` set al \<Longrightarrow> map fst (AList.update k v al) = map fst al"
  by (induction al) auto

text \<open>
  Claim C7, amended. The material is lower-cased and trimmed. When it is not a key of
  the table, the table is unchanged and the material is reported as not found, whatever
  the price. When it is a key and the price is zero or less, the table is unchanged and
  the price is refused. When it is a key and the price is above zero, the entry is
  overwritten, no key is added, and \<open>registrar_compra\<close> then finds the new price for every
  material whose lower-cased form is that key.
\<close>

theorem configurar_precios_efecto:
  "(py_strip (py_lower m) \<notin> fst ` set (precios_materiales s) \<longrightarrow>
      configurar_precios m (Some x) s = (MaterialNoEncontrado, s))
   \<and> (py_strip (py_lower m) \<in> fst ` set (precios_materiales s) \<and> float_le x (py_float 0) \<longrightarrow>
      configurar_precios m (Some x) s = (PrecioNoPositivo, s))
   \<and> (py_strip (py_lower m) \<in> fst ` set (precios_materiales s) \<and> float_lt (py_float 0) x \<longrightarrow>
      fst (configurar_precios m (Some x) s) = PrecioActualizado
      \<and> map fst (precios_materiales (snd (configurar_precios m (Some x) s)))
          = map fst (precios_materiales s)
      \<and> map_of (precios_materiales (snd (configurar_precios m (Some x) s)))
          = (map_of (precios_materiales s))(py_strip (py_lower m) \<mapsto> x)
      \<and> (\<forall>m2. py_lower m2 = py_strip (py_lower m) \<longrightarrow>
            precio_de (snd (configurar_precios m (Some x) s)) m2 = x))"
proof -
  have a: "py_strip (py_lower m) \<notin> fst ` set (precios_materiales s) \<longrightarrow>
      configurar_precios m (Some x) s = (MaterialNoEncontrado, s)"
    by (simp add: configurar_precios_def Let_def)
  have b: "py_strip (py_lower m) \<in> fst ` set (precios_materiales s) \<and> float_le x (py_float 0) \<longrightarrow>
      configurar_precios m (Some x) s = (PrecioNoPositivo, s)"
    by (simp add: configurar_precios_def Let_def float_le_no_lt)
  have c: "py_strip (py_lower m) \<in> fst ` set (precios_materiales s) \<and> float_lt (py_float 0) x \<longrightarrow>
      fst (configurar_precios m (Some x) s) = PrecioActualizado
      \<and> map fst (precios_materiales (snd (configurar_precios m (Some x) s)))
          = map fst (precios_materiales s)
      \<and> map_of (precios_materiales (snd (configurar_precios m (Some x) s)))
          = (map_of (precios_materiales s))(py_strip (py_lower m) \<mapsto> x)
      \<and> (\<forall>m2. py_lower m2 = py_strip (py_lower m) \<longrightarrow>
            precio_de (snd (configurar_precios m (Some x) s)) m2 = x)"
    by (simp add: configurar_precios_def Let_def update_conv' precio_de_def
        map_fst_update_presente)
  show ?thesis
    by (rule conjI [OF a conjI [OF b c]])
qed

lemma precios_witness:
  "float_le (py_float 0) (py_float 0)"
  "float_lt (py_float 0) (py_float 3)"
  by (simp_all add: flotantes)

theorem configurar_precios_efecto_witness:
  "configurar_precios ''madera'' (Some (py_float 7)) sistema_vacio
     = (MaterialNoEncontrado, sistema_vacio)
   \<and> configurar_precios '' Carton '' (Some (py_float 0)) sistema_vacio
     = (PrecioNoPositivo, sistema_vacio)
   \<and> fst (configurar_precios '' Carton '' (Some (py_float 3)) sistema_vacio) = PrecioActualizado
   \<and> precio_de (snd (configurar_precios '' Carton '' (Some (py_float 3)) sistema_vacio))
        ''CARTON'' = py_float 3"
proof -
  have k1: "py_strip (py_lower ''madera'') = ''madera''"
    by (simp add: evaluacion)
  have k2: "py_strip (py_lower '' Carton '') = ''carton''"
    by (simp add: evaluacion)
  have k3: "py_lower ''CARTON'' = ''carton''"
    by (simp add: evaluacion)
  have h1: "py_strip (py_lower ''madera'') \<notin> fst ` set (precios_materiales sistema_vacio)"
    unfolding k1 by (simp add: precios_sistema_vacio precios_iniciales_def)
  have h2: "py_strip (py_lower '' Carton '') \<in> fst ` set (precios_materiales sistema_vacio)"
    unfolding k2 by (simp add: precios_sistema_vacio precios_iniciales_def)
  have a: "configurar_precios ''madera'' (Some (py_float 7)) sistema_vacio
      = (MaterialNoEncontrado, sistema_vacio)"
    using configurar_precios_efecto [of "''madera''" sistema_vacio "py_float 7"] h1 by blast
  have b: "configurar_precios '' Carton '' (Some (py_float 0)) sistema_vacio
      = (PrecioNoPositivo, sistema_vacio)"
    using configurar_precios_efecto [of "'' Carton ''" sistema_vacio "py_float 0"] h2
      precios_witness(1) by blast
  have c: "fst (configurar_precios '' Carton '' (Some (py_float 3)) sistema_vacio)
        = PrecioActualizado
     \<and> precio_de (snd (configurar_precios '' Carton '' (Some (py_float 3)) sistema_vacio))
          ''CARTON'' = py_float 3"
    using configurar_precios_efecto [of "'' Carton ''" sistema_vacio "py_float 3"] h2 k2 k3
      precios_witness(2) by simp
  from a b c show ?thesis by simp
qed

section \<open>A phone with surrounding whitespace\<close>

text \<open>
  Claim C10. \<open>agregar_cliente\<close> compares the phone as passed with the stored phones,
  which were trimmed when stored. With one customer whose phone is 555-1234, the phone
  " 555-1234" does not match, a second customer is created, and both have the stored phone
  555-1234: trimmed phones are not unique in the ledger.
\<close>

theorem telefono_sin_recortar_duplica:
  "py_strip '' 555-1234'' = telefono cliente_juan
   \<and> '' 555-1234'' \<noteq> telefono cliente_juan
   \<and> clientes sistema_juan = [(1, cliente_juan)]
   \<and> fst (agregar_cliente entorno_ejemplo ''ana'' '' 555-1234'' ''Calle 2'' sistema_juan) = Inr 2
   \<and> map (telefono \<circ> snd)
       (clientes (snd (agregar_cliente entorno_ejemplo ''ana'' '' 555-1234'' ''Calle 2''
          sistema_juan)))
     = [''555-1234'', ''555-1234'']"
proof -
  have n: "py_strip ''ana'' \<noteq> []"
    by (simp add: evaluacion)
  have t: "py_strip '' 555-1234'' = ''555-1234''"
    by (simp add: evaluacion)
  have f: "\<forall>p \<in> set (clientes sistema_juan). telefono (snd p) \<noteq> '' 555-1234''"
    by (simp add: clientes_sistema_juan cliente_juan_def)
  show ?thesis
    unfolding agregar_cliente_nuevo [OF n f]
    by (simp add: clientes_sistema_juan cliente_juan_def cliente_nuevo_def t py_max_def)
qed


end
